theory Spec2Isabelle
  imports Main "HOL-Library.Sublist" "HOL-Library.Monad_Syntax"
begin

text \<open>
  A shallow embedding of the recommendation core of the package installer:
  the popularity miner (\<open>mcp_servers/github_server.py\<close>,
  \<open>agents/github_researcher.py\<close>), the recommendation parser
  (\<open>agents/package_analyzer.py\<close>), the aggregator
  (\<open>agents/recommender.py\<close>, \<open>mcp_servers/pypi_server.py\<close>) and the two
  resolution functions (\<open>agents/recommender.py\<close>, \<open>main.py\<close>).

  Conventions. A Python \<open>str\<close> is a \<open>string\<close>, one \<open>char\<close> per code point, for
  the code points below 256. A function that can raise returns an \<open>option\<close>,
  \<open>None\<close> standing for the exception. A dictionary whose iteration order is
  observed is an association list in insertion order with pairwise distinct
  keys. The network collaborators (GitHub, the language model, the package
  index) are parameters.
\<close>

section \<open>Strings and dictionaries\<close>

text \<open>
  \<open>str.isspace\<close> on one character: the code points below 256 that Python counts
  as whitespace.
\<close>

definition isspace :: "char \<Rightarrow> bool" where
  "isspace c \<longleftrightarrow>
     c \<in> set [CHR 0x09, CHR 0x0A, CHR 0x0B, CHR 0x0C, CHR 0x0D, CHR 0x1C, CHR 0x1D,
              CHR 0x1E, CHR 0x1F, CHR '' '', CHR 0x85, CHR 0xA0]"

text \<open>\<open>s.strip()\<close>.\<close>

definition strip :: "string \<Rightarrow> string" where
  "strip s = rev (dropWhile isspace (rev (dropWhile isspace s)))"

text \<open>\<open>s.startswith(p)\<close>.\<close>

definition startswith :: "string \<Rightarrow> string \<Rightarrow> bool" where
  "startswith s p = prefix p s"

text \<open>\<open>sub in s\<close> on strings.\<close>

fun str_in :: "string \<Rightarrow> string \<Rightarrow> bool" where
  "str_in sub [] = (sub = [])"
| "str_in sub (c # cs) = (prefix sub (c # cs) \<or> str_in sub cs)"

text \<open>
  \<open>s.replace(old, new)\<close> for a non-empty \<open>old\<close>, given as its first character
  and the rest: every occurrence, left to right, without overlap.
\<close>

fun replace_from :: "char \<Rightarrow> string \<Rightarrow> string \<Rightarrow> string \<Rightarrow> string" where
  "replace_from o1 os new [] = []"
| "replace_from o1 os new (c # cs) =
     (if prefix (o1 # os) (c # cs) then new @ replace_from o1 os new (drop (length os) cs)
      else c # replace_from o1 os new cs)"

text \<open>
  The source calls \<open>replace\<close> and \<open>split\<close> with non-empty literals only; the
  functions are left unspecified on an empty pattern (where \<open>split\<close> raises
  \<open>ValueError\<close>).
\<close>

fun str_replace :: "string \<Rightarrow> string \<Rightarrow> string \<Rightarrow> string" where
  "str_replace (o1 # os) new s = replace_from o1 os new s"

text \<open>
  \<open>s.split(sep)\<close>: the scan keeps the piece read so far in \<open>cur\<close> and cuts at
  every occurrence of the separator.
\<close>

fun split_from :: "char \<Rightarrow> string \<Rightarrow> string \<Rightarrow> string \<Rightarrow> string list" where
  "split_from s1 ss cur [] = [cur]"
| "split_from s1 ss cur (c # cs) =
     (if prefix (s1 # ss) (c # cs) then cur # split_from s1 ss [] (drop (length ss) cs)
      else split_from s1 ss (cur @ [c]) cs)"

fun str_split :: "string \<Rightarrow> string \<Rightarrow> string list" where
  "str_split (s1 # ss) s = split_from s1 ss [] s"

text \<open>\<open>s.split(sep, maxsplit)\<close>: at most \<open>maxsplit\<close> cuts.\<close>

fun split_max_from :: "char \<Rightarrow> string \<Rightarrow> nat \<Rightarrow> string \<Rightarrow> string \<Rightarrow> string list" where
  "split_max_from s1 ss 0 cur rest = [cur @ rest]"
| "split_max_from s1 ss (Suc n) cur [] = [cur]"
| "split_max_from s1 ss (Suc n) cur (c # cs) =
     (if prefix (s1 # ss) (c # cs)
      then cur # split_max_from s1 ss n [] (drop (length ss) cs)
      else split_max_from s1 ss (Suc n) (cur @ [c]) cs)"

fun str_split_max :: "string \<Rightarrow> nat \<Rightarrow> string \<Rightarrow> string list" where
  "str_split_max (s1 # ss) maxsplit s = split_max_from s1 ss maxsplit [] s"

text \<open>
  \<open>s.lower()\<close>: below 256 the letters with a lower-case form are \<open>A\<close> to \<open>Z\<close>
  and the code points 192 to 222 except the multiplication sign 215; the
  lower-case form is 32 code points further.
\<close>

definition char_lower :: "char \<Rightarrow> char" where
  "char_lower c =
     (let n = (of_char c :: nat) in
      if (65 \<le> n \<and> n \<le> 90) \<or> (192 \<le> n \<and> n \<le> 222 \<and> n \<noteq> 215)
      then char_of (n + 32) else c)"

definition lower :: "string \<Rightarrow> string" where
  "lower s = map char_lower s"

text \<open>\<open>sep.join(xs)\<close>.\<close>

fun str_join :: "string \<Rightarrow> string list \<Rightarrow> string" where
  "str_join sep [] = []"
| "str_join sep [x] = x"
| "str_join sep (x # y # ys) = x @ sep @ str_join sep (y # ys)"

text \<open>\<open>xs[i]\<close>, which raises \<open>IndexError\<close> out of range (no index is negative here).\<close>

definition getitem :: "'a list \<Rightarrow> nat \<Rightarrow> 'a option" where
  "getitem xs i = (if i < length xs then Some (xs ! i) else None)"

text \<open>\<open>xs[:n]\<close> for a Python integer \<open>n\<close>: a negative \<open>n\<close> counts from the end.\<close>

definition slice_to :: "int \<Rightarrow> 'a list \<Rightarrow> 'a list" where
  "slice_to n xs =
     (if 0 \<le> n then take (nat n) xs else take (length xs - nat (- n)) xs)"

text \<open>
  \<open>d[k] = v\<close>: an existing key keeps its place and takes the new value, a new
  key goes to the end. \<open>d.get(k, default)\<close> reads.
\<close>

fun dict_set :: "'k \<Rightarrow> 'v \<Rightarrow> ('k \<times> 'v) list \<Rightarrow> ('k \<times> 'v) list" where
  "dict_set k v [] = [(k, v)]"
| "dict_set k v ((k', v') # d) =
     (if k' = k then (k, v) # d else (k', v') # dict_set k v d)"

definition dict_get :: "('k \<times> 'v) list \<Rightarrow> 'k \<Rightarrow> 'v \<Rightarrow> 'v" where
  "dict_get d k dflt = (case map_of d k of None \<Rightarrow> dflt | Some v \<Rightarrow> v)"

section \<open>Recommendation parser\<close>

text \<open>
  \<open>PackageAnalyzerAgent.parse_llm_recommendations\<close>. The loop's variables
  (\<open>approved\<close>, \<open>alternatives\<close>, \<open>additional\<close>, \<open>current_section\<close>) are the
  record \<open>parser_state\<close>; \<open>current_section\<close> is \<open>None\<close> or one of the three
  section names. An entry of \<open>alternatives\<close> is the dictionary
  \<open>{"alternative": ..., "reason": ...}\<close>.
\<close>

datatype section_name = Approve | Alternatives | Additional

record alt_suggestion =
  alternative :: string
  reason :: string

record parser_state =
  approved :: "string list"
  cur_alternatives :: "(string \<times> alt_suggestion) list"
  cur_additional :: "(string \<times> string) list"
  current_section :: "section_name option"

text \<open>
  The returned dictionary, with its keys \<open>approved_packages\<close>,
  \<open>alternative_suggestions\<close> and \<open>additional_packages\<close>.
\<close>

record parsed =
  parsed_approved_packages :: "string list"
  alternative_suggestions :: "(string \<times> alt_suggestion) list"
  additional_packages :: "(string \<times> string) list"

text \<open>A bullet met in the section \<open>alternatives\<close>; \<open>content\<close> is the bullet's text.\<close>

definition parse_alternative :: "parser_state \<Rightarrow> string \<Rightarrow> parser_state option" where
  "parse_alternative st content =
     (if str_in '':'' content then
        do {
          let parts = str_split_max '':'' 1 content;
          p0 \<leftarrow> getitem parts 0;
          p1 \<leftarrow> getitem parts 1;
          let original_pkg = strip p0;
          let reason = strip p1;
          if str_in ''Better alternative is'' reason then
            do {
              after_marker \<leftarrow> getitem (str_split ''Better alternative is'' reason) 1;
              before_because \<leftarrow> getitem (str_split ''because'' after_marker) 0;
              let alt_pkg = strip before_because;
              reason_text \<leftarrow>
                (if str_in ''because'' reason
                 then map_option strip (getitem (str_split ''because'' reason) 1)
                 else Some reason);
              Some (st\<lparr>cur_alternatives :=
                dict_set original_pkg \<lparr>alternative = alt_pkg, reason = reason_text\<rparr>
                  (cur_alternatives st)\<rparr>)
            }
          else Some st
        }
      else Some st)"

text \<open>A bullet met in the section \<open>additional\<close>.\<close>

definition parse_additional :: "parser_state \<Rightarrow> string \<Rightarrow> parser_state option" where
  "parse_additional st content =
     (if str_in '':'' content then
        do {
          let parts = str_split_max '':'' 1 content;
          p0 \<leftarrow> getitem parts 0;
          p1 \<leftarrow> getitem parts 1;
          let pkg_name = strip p0;
          let reason = strip p1;
          if str_in '' or '' (lower pkg_name) \<or> str_in '' and '' (lower pkg_name)
          then Some st
          else if str_in '' '' pkg_name then Some st
          else Some (st\<lparr>cur_additional := dict_set pkg_name reason (cur_additional st)\<rparr>)
        }
      else Some st)"

text \<open>The body of the loop over the lines.\<close>

definition parse_line :: "parser_state \<Rightarrow> string \<Rightarrow> parser_state option" where
  "parse_line st raw_line =
     (let line = strip raw_line in
      if startswith line ''APPROVE:'' then
        (let packages_str = strip (str_replace ''APPROVE:'' [] line) in
         Some (st\<lparr>current_section := Some Approve,
                  approved :=
                    (if packages_str \<noteq> []
                     then approved st @
                       map strip (filter (\<lambda>p. strip p \<noteq> []) (str_split '','' packages_str))
                     else approved st)\<rparr>))
      else if startswith line ''SUGGEST_ALTERNATIVES:'' then
        Some (st\<lparr>current_section := Some Alternatives\<rparr>)
      else if startswith line ''ADDITIONAL:'' then
        Some (st\<lparr>current_section := Some Additional\<rparr>)
      else if startswith line ''-'' \<and> strip (drop 1 line) \<noteq> [] then
        (let content = strip (drop 1 line) in
         if current_section st = Some Alternatives then parse_alternative st content
         else if current_section st = Some Additional then parse_additional st content
         else Some st)
      else Some st)"

fun parse_lines :: "parser_state \<Rightarrow> string list \<Rightarrow> parser_state option" where
  "parse_lines st [] = Some st"
| "parse_lines st (line # lines) =
     (case parse_line st line of None \<Rightarrow> None | Some st' \<Rightarrow> parse_lines st' lines)"

definition initial_state :: parser_state where
  "initial_state =
     \<lparr>approved = [], cur_alternatives = [], cur_additional = [], current_section = None\<rparr>"

definition parse_llm_recommendations :: "string \<Rightarrow> string list \<Rightarrow> parsed option" where
  "parse_llm_recommendations llm_response user_packages =
     do {
       let lines = str_split [CHR 0x0A] llm_response;
       st \<leftarrow> parse_lines initial_state lines;
       let approved' =
         (if approved st = [] \<and> cur_alternatives st = [] \<and> cur_additional st = []
          then user_packages else approved st);
       Some \<lparr>parsed_approved_packages = approved',
             alternative_suggestions = cur_alternatives st,
             additional_packages = cur_additional st\<rparr>
     }"



section \<open>Popularity miner\<close>

text \<open>The dataclass \<open>GitHubRepo\<close>.\<close>

record github_repo =
  name :: string
  full_name :: string
  repo_description :: "string option"
  stars :: int
  url :: string

text \<open>
  The collaborators behind the network. \<open>search_repositories query language
  max_results\<close> is \<open>GitHubMCPServer.search_repositories\<close>. \<open>all_packages
  full_name\<close> lists the elements of the set
  \<open>set(deps["requirements_txt"] + deps["pyproject_toml"])\<close> that
  \<open>analyze_repo_dependencies(full_name)\<close> gives, in the order the loop
  \<open>for package in all_packages\<close> visits them. \<open>llm_invoke\<close> is the call
  \<open>self.llm.invoke(messages)\<close> as a function of the user prompt (the system
  prompt is a constant): \<open>Inr\<close> the content of the response, \<open>Inl\<close> the text of
  the exception it raised. \<open>get_package_info\<close> is
  \<open>PyPIMCPServer.get_package_info\<close>, \<open>None\<close> when the package is not found or
  the request fails.
\<close>

record package_info =
  pkg_name :: string
  version :: string
  summary :: string
  pkg_description :: string
  author :: string
  home_page :: string
  license :: string

record env =
  search_repositories :: "string \<Rightarrow> string \<Rightarrow> int \<Rightarrow> github_repo list"
  all_packages :: "string \<Rightarrow> string list"
  llm_invoke :: "string \<Rightarrow> string + string"
  get_package_info :: "string \<Rightarrow> package_info option"

text \<open>
  \<open>GitHubMCPServer.get_popular_packages_from_repos\<close>: the inner and the outer
  loop that fill the dictionary \<open>package_count\<close>, then the sort by decreasing
  count and the cut to \<open>top_n\<close>. Python's \<open>sorted\<close> is stable also with
  \<open>reverse=True\<close>, so it is the stable sort on the negated count. The result is
  the list of the pairs (\<open>package\<close>, \<open>occurrences\<close>).
\<close>

fun count_packages :: "(string \<times> int) list \<Rightarrow> string list \<Rightarrow> (string \<times> int) list" where
  "count_packages package_count [] = package_count"
| "count_packages package_count (package # rest) =
     count_packages
       (dict_set package (dict_get package_count package 0 + 1) package_count) rest"

fun count_repos :: "env \<Rightarrow> (string \<times> int) list \<Rightarrow> github_repo list \<Rightarrow> (string \<times> int) list" where
  "count_repos env package_count [] = package_count"
| "count_repos env package_count (repo # repos) =
     count_repos env (count_packages package_count (all_packages env (full_name repo))) repos"

definition get_popular_packages_from_repos ::
  "env \<Rightarrow> github_repo list \<Rightarrow> int \<Rightarrow> (string \<times> int) list" where
  "get_popular_packages_from_repos env repos top_n =
     (let package_count = count_repos env [] repos;
          sorted_packages = slice_to top_n (sort_key (\<lambda>x. - snd x) package_count)
      in sorted_packages)"

text \<open>
  \<open>GitHubResearchAgent.research_similar_projects\<close>; of the returned dictionary
  the keys \<open>success\<close>, \<open>packages\<close> and \<open>repos_analyzed\<close>, which are the ones its
  callers read.
\<close>

record research_result =
  research_success :: bool
  packages :: "(string \<times> int) list"
  repos_analyzed :: int

definition common_base :: "string set" where
  "common_base = {''pip'', ''setuptools'', ''wheel'', ''python''}"

definition research_similar_projects :: "env \<Rightarrow> string \<Rightarrow> int \<Rightarrow> research_result" where
  "research_similar_projects env project_description max_repos =
     (let repos = search_repositories env project_description ''Python'' max_repos in
      if repos = [] then
        \<lparr>research_success = False, packages = [], repos_analyzed = 0\<rparr>
      else
        (let popular_packages = get_popular_packages_from_repos env repos 15;
             filtered_packages =
               filter (\<lambda>pkg. lower (fst pkg) \<notin> common_base) popular_packages
         in \<lparr>research_success = True, packages = filtered_packages,
              repos_analyzed = int (length repos)\<rparr>))"

section \<open>Recommendation aggregator\<close>

text \<open>\<open>PyPIMCPServer.get_package_description\<close>.\<close>

definition get_package_description :: "env \<Rightarrow> string \<Rightarrow> string" where
  "get_package_description env package_name =
     (case get_package_info env package_name of
        Some package_info \<Rightarrow>
          if summary package_info \<noteq> [] then summary package_info
          else if pkg_description package_info \<noteq> [] then
            (let desc = strip (str_replace [CHR 0x0A] '' '' (pkg_description package_info)) in
             if length desc > 200 then take 200 desc @ ''...'' else desc)
          else ''No description available''
      | None \<Rightarrow> ''Package not found on PyPI'')"

text \<open>\<open>PackageAnalyzerAgent.get_package_descriptions\<close>, the dictionary as accumulator.\<close>

fun get_package_descriptions ::
  "env \<Rightarrow> (string \<times> string) list \<Rightarrow> string list \<Rightarrow> (string \<times> string) list" where
  "get_package_descriptions env descriptions [] = descriptions"
| "get_package_descriptions env descriptions (package # rest) =
     get_package_descriptions env
       (dict_set package (get_package_description env package) descriptions) rest"

text \<open>The user prompt that \<open>analyze_with_llm\<close> builds.\<close>

definition user_prompt :: "string list \<Rightarrow> string \<Rightarrow> string list \<Rightarrow> string" where
  "user_prompt user_packages project_description github_packages =
     ''Project Description: '' @
     (if project_description \<noteq> [] then project_description else ''Not provided'') @
     [CHR 0x0A, CHR 0x0A] @
     ''User'' @ [CHR 0x27] @ ''s Requested Packages: '' @
     (if user_packages \<noteq> [] then str_join '', '' user_packages else ''None specified'') @
     [CHR 0x0A, CHR 0x0A] @
     ''Popular packages from similar GitHub projects: '' @
     (if github_packages \<noteq> [] then str_join '', '' (slice_to 10 github_packages)
      else ''None found'') @
     [CHR 0x0A, CHR 0x0A] @
     ''Analyze the user'' @ [CHR 0x27] @
     ''s package choices and provide recommendations following the rules.''"

text \<open>
  \<open>PackageAnalyzerAgent.analyze_with_llm\<close>: \<open>Inr\<close> the value under \<open>analysis\<close>
  when \<open>success\<close> is true, \<open>Inl\<close> the value under \<open>error\<close> when the call raised.
\<close>

definition analyze_with_llm :: "env \<Rightarrow> string list \<Rightarrow> string \<Rightarrow> string list \<Rightarrow> string + string" where
  "analyze_with_llm env user_packages project_description github_packages =
     (case llm_invoke env (user_prompt user_packages project_description github_packages) of
        Inr content \<Rightarrow> Inr content
      | Inl e \<Rightarrow> Inl (''LLM analysis failed: '' @ e))"

text \<open>
  The dictionary that \<open>RecommenderAgent.generate_recommendations\<close> returns. All
  three return statements set \<open>success\<close>, \<open>has_suggestions\<close>,
  \<open>approved_packages\<close>, \<open>alternatives\<close> and \<open>additional\<close>; the keys
  \<open>final_packages\<close> (the field \<open>final_packages_entry\<close>), \<open>error\<close>, \<open>message\<close> and
  \<open>github_insights\<close> (the pair of \<open>packages_found\<close> and \<open>repos_analyzed\<close>) are
  optional. An entry of
  \<open>alternatives\<close> adds a \<open>description\<close> to the parser's entry; an entry of
  \<open>additional\<close> has a \<open>reason\<close> and a \<open>description\<close>.
\<close>

record alt_info = alt_suggestion +
  description :: string

record add_info =
  add_reason :: string
  add_description :: string

record recommendations =
  success :: bool
  has_suggestions :: bool
  final_packages_entry :: "string list option"
  approved_packages :: "string list"
  alternatives :: "(string \<times> alt_info) list"
  additional :: "(string \<times> add_info) list"
  error :: "string option"
  message :: "string option"
  github_insights :: "(string list \<times> int) option"

text \<open>The two loops that attach the descriptions.\<close>

fun decorate_alternatives ::
  "(string \<times> string) list \<Rightarrow> (string \<times> alt_info) list \<Rightarrow>
   (string \<times> alt_suggestion) list \<Rightarrow> (string \<times> alt_info) list" where
  "decorate_alternatives descriptions alternatives_with_desc [] = alternatives_with_desc"
| "decorate_alternatives descriptions alternatives_with_desc ((original, info) # rest) =
     (let alt_pkg = alternative info in
      decorate_alternatives descriptions
        (dict_set original
           \<lparr>alternative = alt_pkg, reason = reason info,
            description = dict_get descriptions alt_pkg ''No description available''\<rparr>
           alternatives_with_desc)
        rest)"

fun decorate_additional ::
  "(string \<times> string) list \<Rightarrow> (string \<times> add_info) list \<Rightarrow>
   (string \<times> string) list \<Rightarrow> (string \<times> add_info) list" where
  "decorate_additional descriptions additional_with_desc [] = additional_with_desc"
| "decorate_additional descriptions additional_with_desc ((pkg, rsn) # rest) =
     decorate_additional descriptions
       (dict_set pkg
          \<lparr>add_reason = rsn,
           add_description = dict_get descriptions pkg ''No description available''\<rparr>
          additional_with_desc)
       rest"

text \<open>
  \<open>RecommenderAgent.generate_recommendations\<close>, in the order of its
  statements. First the variable \<open>github_result\<close>, bound only when the research
  ran (\<open>None\<close> below when it is not bound), and the list \<open>github_packages\<close>.
\<close>

definition github_result_of :: "env \<Rightarrow> string option \<Rightarrow> research_result option" where
  "github_result_of env project_description =
     (case project_description of
        Some d \<Rightarrow>
          if d \<noteq> [] \<and> strip d \<noteq> [] then Some (research_similar_projects env d 5)
          else None
      | None \<Rightarrow> None)"

definition github_packages_of :: "env \<Rightarrow> string option \<Rightarrow> string list" where
  "github_packages_of env project_description =
     (case github_result_of env project_description of
        Some github_result \<Rightarrow>
          if research_success github_result then map fst (packages github_result) else []
      | None \<Rightarrow> [])"

text \<open>The call \<open>self.package_analyzer.analyze_with_llm(...)\<close> and the prompt it sends.\<close>

definition sent_prompt :: "env \<Rightarrow> string list \<Rightarrow> string option \<Rightarrow> string" where
  "sent_prompt env user_packages project_description =
     user_prompt user_packages
       (case project_description of Some d \<Rightarrow> d | None \<Rightarrow> [])
       (github_packages_of env project_description)"

definition llm_analysis_of :: "env \<Rightarrow> string list \<Rightarrow> string option \<Rightarrow> string + string" where
  "llm_analysis_of env user_packages project_description =
     analyze_with_llm env user_packages
       (case project_description of Some d \<Rightarrow> d | None \<Rightarrow> [])
       (github_packages_of env project_description)"

text \<open>
  The value under \<open>repos_analyzed\<close> in the last return statement:
  \<open>github_result.get("repos_analyzed", 0) if project_description else 0\<close>, which
  reads \<open>github_result\<close> whenever \<open>project_description\<close> is a non-empty string
  and raises \<open>NameError\<close> when it is not bound.
\<close>

definition repos_analyzed_of :: "env \<Rightarrow> string option \<Rightarrow> int option" where
  "repos_analyzed_of env project_description =
     (case project_description of
        Some d \<Rightarrow>
          if d \<noteq> [] then map_option repos_analyzed (github_result_of env project_description)
          else Some 0
      | None \<Rightarrow> Some 0)"

definition generate_recommendations ::
  "env \<Rightarrow> string list \<Rightarrow> string option \<Rightarrow> recommendations option" where
  "generate_recommendations env user_packages project_description =
     (let github_packages = github_packages_of env project_description in
      case llm_analysis_of env user_packages project_description of
        Inl err \<Rightarrow>
          Some \<lparr>success = True, has_suggestions = False,
                final_packages_entry = Some user_packages,
                approved_packages = user_packages,
                alternatives = [], additional = [],
                error = Some err, message = None, github_insights = None\<rparr>
      | Inr analysis \<Rightarrow>
          do {
            parsed \<leftarrow> parse_llm_recommendations analysis user_packages;
            if alternative_suggestions parsed = [] \<and> additional_packages parsed = [] then
              Some \<lparr>success = True, has_suggestions = False,
                    final_packages_entry = Some user_packages,
                    approved_packages = user_packages,
                    alternatives = [], additional = [],
                    error = None,
                    message = Some
                      ''No better alternatives found. Proceeding with your packages.'',
                    github_insights = None\<rparr>
            else
              do {
                let all_suggested_packages =
                      map (\<lambda>p. alternative (snd p)) (alternative_suggestions parsed) @
                      map fst (additional_packages parsed);
                let descriptions = get_package_descriptions env [] all_suggested_packages;
                let alternatives_with_desc =
                      decorate_alternatives descriptions [] (alternative_suggestions parsed);
                let additional_with_desc =
                      decorate_additional descriptions [] (additional_packages parsed);
                analyzed \<leftarrow> repos_analyzed_of env project_description;
                Some \<lparr>success = True, has_suggestions = True,
                      final_packages_entry = None,
                      approved_packages = parsed_approved_packages parsed,
                      alternatives = alternatives_with_desc,
                      additional = additional_with_desc,
                      error = None, message = None,
                      github_insights = Some (slice_to 5 github_packages, analyzed)\<rparr>
              }
          })"

section \<open>Resolution engine\<close>

text \<open>
  The user's yes/no choices are only ever looked up, so they are a map.
\<close>

type_synonym choices = "string \<rightharpoonup> bool"

text \<open>\<open>d.get(k, False)\<close> on the choices dictionary.\<close>

definition choices_get :: "choices \<Rightarrow> string \<Rightarrow> bool" where
  "choices_get ch k = (case ch k of None \<Rightarrow> False | Some b \<Rightarrow> b)"

text \<open>
  The loop over \<open>recommendations["alternatives"].items()\<close>, shared verbatim by
  \<open>RecommenderAgent.build_final_package_list\<close> and \<open>main.build_final_package_list\<close>;
  the last argument is the list \<open>final_packages\<close> built so far.
\<close>

fun handle_alternatives ::
  "choices \<Rightarrow> (string \<times> alt_info) list \<Rightarrow> string list \<Rightarrow> string list" where
  "handle_alternatives ch [] final_packages = final_packages"
| "handle_alternatives ch ((original, info) # rest) final_packages =
     (let alt_pkg = alternative info in
      if choices_get ch alt_pkg
      then handle_alternatives ch rest (final_packages @ [alt_pkg])
      else if original \<notin> set final_packages
      then handle_alternatives ch rest (final_packages @ [original])
      else handle_alternatives ch rest final_packages)"

text \<open>The loop over \<open>recommendations["additional"].keys()\<close>.\<close>

fun handle_additional :: "choices \<Rightarrow> string list \<Rightarrow> string list \<Rightarrow> string list" where
  "handle_additional ch [] final_packages = final_packages"
| "handle_additional ch (pkg # rest) final_packages =
     (if choices_get ch pkg
      then handle_additional ch rest (final_packages @ [pkg])
      else handle_additional ch rest final_packages)"

text \<open>
  The closing loop \<open>for pkg in final_packages: if pkg not in seen: ...\<close>, with the
  set \<open>seen\<close> and the list \<open>unique_packages\<close> as accumulators.
\<close>

fun remove_duplicates :: "string set \<Rightarrow> string list \<Rightarrow> string list \<Rightarrow> string list" where
  "remove_duplicates seen unique_packages [] = unique_packages"
| "remove_duplicates seen unique_packages (pkg # rest) =
     (if pkg \<notin> seen
      then remove_duplicates (insert pkg seen) (unique_packages @ [pkg]) rest
      else remove_duplicates seen unique_packages rest)"

text \<open>The list \<open>final_packages\<close> as it stands after the three insertion steps.\<close>

definition inserted_packages :: "recommendations \<Rightarrow> choices \<Rightarrow> string list" where
  "inserted_packages r ch =
     handle_additional ch (map fst (additional r))
       (handle_alternatives ch (alternatives r) ([] @ approved_packages r))"

text \<open>\<open>RecommenderAgent.build_final_package_list(recommendations, user_choices)\<close>.\<close>

definition build_final_package_list :: "recommendations \<Rightarrow> choices \<Rightarrow> string list" where
  "build_final_package_list r user_choices =
     remove_duplicates {} [] (inserted_packages r user_choices)"

text \<open>
  \<open>build_final_package_list(recommendations, choices, user_packages)\<close> of
  \<open>main.py\<close>: the same insertions, then the fallback to \<open>user_packages\<close>, then
  the removal of duplicates.
\<close>

definition main_build_final_package_list ::
  "recommendations \<Rightarrow> choices \<Rightarrow> string list \<Rightarrow> string list" where
  "main_build_final_package_list r ch user_packages =
     (let final_packages = inserted_packages r ch;
          final_packages =
            (if final_packages = [] \<and> user_packages \<noteq> [] then user_packages
             else final_packages)
      in remove_duplicates {} [] final_packages)"

text \<open>
  The name the alternatives loop settles on for one entry: the suggested package
  when the user chose it, the original otherwise.
\<close>

definition chosen :: "choices \<Rightarrow> string \<times> alt_info \<Rightarrow> string" where
  "chosen ch p =
     (if choices_get ch (alternative (snd p)) then alternative (snd p) else fst p)"


section \<open>Example inputs\<close>

definition rec_polars_approved :: recommendations where
  "rec_polars_approved =
     \<lparr>success = True, has_suggestions = True, final_packages_entry = None,
      approved_packages = [''numpy'', ''polars''],
      alternatives =
        [(''pandas'', \<lparr>alternative = ''polars'', reason = ''faster'',
                       description = ''Blazingly fast DataFrame library''\<rparr>)],
      additional = [], error = None, message = None,
      github_insights = Some ([], 0)\<rparr>"

definition rec_only_additional :: recommendations where
  "rec_only_additional =
     \<lparr>success = True, has_suggestions = True, final_packages_entry = None,
      approved_packages = [],
      alternatives = [],
      additional =
        [(''seaborn'', \<lparr>add_reason = ''useful for plotting'',
                        add_description = ''Statistical data visualization''\<rparr>)],
      error = None, message = None,
      github_insights = Some ([], 0)\<rparr>"

text \<open>
  Two repositories are found; both declare \<open>Pip\<close> and \<open>requests\<close>, one
  \<open>flask\<close>, the other \<open>django\<close>. The language model is unreachable and the
  package index knows no package.
\<close>

definition two_repos_env :: env where
  "two_repos_env =
     \<lparr>search_repositories = (\<lambda>query language max_results.
        [\<lparr>name = ''a'', full_name = ''o/a'', repo_description = None, stars = 10, url = []\<rparr>,
         \<lparr>name = ''b'', full_name = ''o/b'', repo_description = None, stars = 5, url = []\<rparr>]),
      all_packages = (\<lambda>repo_full_name.
        if repo_full_name = ''o/a'' then [''Pip'', ''requests'', ''flask'']
        else [''django'', ''Pip'', ''requests'']),
      llm_invoke = (\<lambda>prompt. Inl ''connection refused''),
      get_package_info = (\<lambda>package_name. None)\<rparr>"



definition response_polars_twice :: string where
  "response_polars_twice =
     ''APPROVE: numpy'' @ [CHR 0x0A] @
     ''SUGGEST_ALTERNATIVES:'' @ [CHR 0x0A] @
     ''- pandas: Better alternative is polars because it is faster'' @ [CHR 0x0A] @
     ''ADDITIONAL:'' @ [CHR 0x0A] @
     ''- polars: fast dataframes'' @ [CHR 0x0A] @
     ''- seaborn: statistical plots''"

section \<open>Properties of the resolution engine\<close>

subsection \<open>The three loops\<close>

lemma set_handle_alternatives:
  "set (handle_alternatives ch alts fp) = set fp \<union> chosen ch ` set alts"
  by (induction ch alts fp rule: handle_alternatives.induct) (auto simp: Let_def chosen_def)

lemma handle_additional_filter:
  "handle_additional ch pkgs fp = fp @ filter (choices_get ch) pkgs"
  by (induction ch pkgs fp rule: handle_additional.induct) auto

lemma set_remove_duplicates:
  "set (remove_duplicates seen u xs) = set u \<union> (set xs - seen)"
  by (induction seen u xs rule: remove_duplicates.induct) auto

lemma distinct_remove_duplicates:
  "distinct u \<Longrightarrow> set u \<subseteq> seen \<Longrightarrow> distinct (remove_duplicates seen u xs)"
  by (induction seen u xs rule: remove_duplicates.induct) auto


lemma remove_duplicates_Nil_iff:
  "remove_duplicates {} [] xs = [] \<longleftrightarrow> xs = []"
  using set_remove_duplicates [of "{}" "[]" xs] by (cases xs) auto

text \<open>The loops read the choices only through \<open>choices_get\<close>.\<close>

lemma handle_alternatives_cong:
  "(\<And>k. choices_get ch k = choices_get ch' k) \<Longrightarrow>
   handle_alternatives ch alts fp = handle_alternatives ch' alts fp"
  by (induction ch alts fp rule: handle_alternatives.induct) (auto simp: Let_def)

lemma handle_additional_cong:
  "(\<And>k. choices_get ch k = choices_get ch' k) \<Longrightarrow>
   handle_additional ch pkgs fp = handle_additional ch' pkgs fp"
  by (simp add: handle_additional_filter cong: filter_cong)

lemma choices_get_absent:
  "ch k = None \<Longrightarrow> choices_get (ch(k \<mapsto> False)) x = choices_get ch x"
  by (simp add: choices_get_def)

lemma set_inserted_packages:
  "set (inserted_packages r ch) =
     set (approved_packages r) \<union> chosen ch ` set (alternatives r)
       \<union> {pkg \<in> fst ` set (additional r). choices_get ch pkg}"
  by (auto simp: inserted_packages_def handle_additional_filter set_handle_alternatives)

lemma set_build_final_package_list:
  "set (build_final_package_list r ch) = set (inserted_packages r ch)"
  by (simp add: build_final_package_list_def set_remove_duplicates)

lemma build_final_package_list_Nil_iff:
  "build_final_package_list r ch = [] \<longleftrightarrow> inserted_packages r ch = []"
  by (simp add: build_final_package_list_def remove_duplicates_Nil_iff)

lemma main_build_final_package_list_unfold:
  "main_build_final_package_list r ch ups =
     (if inserted_packages r ch = [] \<and> ups \<noteq> [] then remove_duplicates {} [] ups
      else build_final_package_list r ch)"
  by (simp add: main_build_final_package_list_def build_final_package_list_def Let_def)

subsection \<open>Claim C1\<close>

text \<open>
  C1. With \<open>approved = ["numpy"]\<close> and the single alternative
  \<open>pandas \<mapsto> polars\<close> (whatever its reason and description, and whatever the
  other keys of the dictionary hold), \<open>RecommenderAgent.build_final_package_list\<close>
  returns \<open>["numpy", "polars"]\<close> for the choices \<open>{"polars": True}\<close> and
  \<open>["numpy", "pandas"]\<close> for the empty choices. In general a name absent from
  the choices is treated as rejected: recording an explicit \<open>False\<close> for it
  changes nothing.
\<close>

theorem build_final_package_list_example_and_default_reject:
  "build_final_package_list
     (r\<lparr>approved_packages := [''numpy''],
        alternatives := [(''pandas'', \<lparr>alternative = ''polars'', reason = rsn,
                                         description = d\<rparr>)],
        additional := []\<rparr>)
     [''polars'' \<mapsto> True] = [''numpy'', ''polars'']
   \<and> build_final_package_list
     (r\<lparr>approved_packages := [''numpy''],
        alternatives := [(''pandas'', \<lparr>alternative = ''polars'', reason = rsn,
                                         description = d\<rparr>)],
        additional := []\<rparr>)
     Map.empty = [''numpy'', ''pandas'']
   \<and> (ch k = None \<longrightarrow>
        build_final_package_list r' (ch(k \<mapsto> False)) = build_final_package_list r' ch)"
proof (intro conjI impI)
  show "build_final_package_list
     (r\<lparr>approved_packages := [''numpy''],
        alternatives := [(''pandas'', \<lparr>alternative = ''polars'', reason = rsn,
                                         description = d\<rparr>)],
        additional := []\<rparr>)
     [''polars'' \<mapsto> True] = [''numpy'', ''polars'']"
    by (simp add: build_final_package_list_def inserted_packages_def choices_get_def Let_def)
  show "build_final_package_list
     (r\<lparr>approved_packages := [''numpy''],
        alternatives := [(''pandas'', \<lparr>alternative = ''polars'', reason = rsn,
                                         description = d\<rparr>)],
        additional := []\<rparr>)
     Map.empty = [''numpy'', ''pandas'']"
    by (simp add: build_final_package_list_def inserted_packages_def choices_get_def Let_def)
next
  assume absent: "ch k = None"
  have same: "\<And>x. choices_get (ch(k \<mapsto> False)) x = choices_get ch x"
    using absent by (simp add: choices_get_def)
  show "build_final_package_list r' (ch(k \<mapsto> False)) = build_final_package_list r' ch"
    unfolding build_final_package_list_def inserted_packages_def
    using handle_alternatives_cong [of "ch(k \<mapsto> False)" ch, OF same]
          handle_additional_cong [of "ch(k \<mapsto> False)" ch, OF same]
    by simp
qed

theorem build_final_package_list_default_reject_witness:
  "build_final_package_list rec_only_additional [''seaborn'' \<mapsto> False] =
     build_final_package_list rec_only_additional Map.empty
   \<and> build_final_package_list rec_only_additional Map.empty = []"
  using build_final_package_list_example_and_default_reject
          [of _ _ _ Map.empty "''seaborn''" rec_only_additional]
  by (simp add: build_final_package_list_def inserted_packages_def choices_get_def Let_def
        rec_only_additional_def)

subsection \<open>Claim C2\<close>




subsection \<open>Claim C3\<close>

text \<open>
  C3, as the code has it. The list returned by
  \<open>RecommenderAgent.build_final_package_list\<close> has no duplicates, and for every
  entry of \<open>alternatives\<close> at least one of the two names is in it: the suggested
  one when the user chose it, the original otherwise. The other name of the pair
  is in the list as well whenever it is approved, is the name settled on for
  another entry, or is an accepted additional package, since the list holds
  exactly those names.
\<close>

theorem build_final_package_list_distinct_and_members:
  "distinct (build_final_package_list r ch) \<and>
   (\<forall>(original, info) \<in> set (alternatives r).
      (if choices_get ch (alternative info) then alternative info else original)
        \<in> set (build_final_package_list r ch)) \<and>
   set (build_final_package_list r ch) =
     set (approved_packages r) \<union> chosen ch ` set (alternatives r)
       \<union> {pkg \<in> fst ` set (additional r). choices_get ch pkg}"
proof (intro conjI)
  show "distinct (build_final_package_list r ch)"
    by (simp add: build_final_package_list_def distinct_remove_duplicates)
  show eq: "set (build_final_package_list r ch) =
     set (approved_packages r) \<union> chosen ch ` set (alternatives r)
       \<union> {pkg \<in> fst ` set (additional r). choices_get ch pkg}"
    by (simp only: set_build_final_package_list set_inserted_packages)
  show "\<forall>(original, info) \<in> set (alternatives r).
      (if choices_get ch (alternative info) then alternative info else original)
        \<in> set (build_final_package_list r ch)"
  proof clarify
    fix original info
    assume "(original, info) \<in> set (alternatives r)"
    then have "chosen ch (original, info) \<in> chosen ch ` set (alternatives r)"
      by (rule imageI)
    then have "chosen ch (original, info) \<in> set (build_final_package_list r ch)"
      unfolding eq by blast
    then show "(if choices_get ch (alternative info) then alternative info else original)
        \<in> set (build_final_package_list r ch)"
      by (simp add: chosen_def split: if_splits)
  qed
qed

theorem build_final_package_list_distinct_and_members_witness:
  "distinct (build_final_package_list rec_polars_approved [''polars'' \<mapsto> True])
   \<and> ''polars'' \<in> set (build_final_package_list rec_polars_approved [''polars'' \<mapsto> True])
   \<and> build_final_package_list rec_polars_approved [''polars'' \<mapsto> True]
       = [''numpy'', ''polars'']"
  using build_final_package_list_distinct_and_members
          [of rec_polars_approved "[''polars'' \<mapsto> True]"]
  by (simp add: build_final_package_list_def inserted_packages_def choices_get_def Let_def
        rec_polars_approved_def)

text \<open>
  The claim as stated fails when the suggested name is itself approved and the
  user keeps the original: \<open>pandas\<close> is not approved, and both \<open>pandas\<close> and
  \<open>polars\<close> are in the result.
\<close>

theorem build_final_package_list_both_names:
  "build_final_package_list rec_polars_approved Map.empty = [''numpy'', ''polars'', ''pandas'']
   \<and> map fst (alternatives rec_polars_approved) = [''pandas'']
   \<and> map (alternative \<circ> snd) (alternatives rec_polars_approved) = [''polars'']
   \<and> ''pandas'' \<notin> set (approved_packages rec_polars_approved)
   \<and> ''pandas'' \<in> set (build_final_package_list rec_polars_approved Map.empty)
   \<and> ''polars'' \<in> set (build_final_package_list rec_polars_approved Map.empty)"
  by (simp add: build_final_package_list_def inserted_packages_def choices_get_def Let_def
        rec_polars_approved_def)

subsection \<open>Claim C10\<close>

text \<open>
  C10, as the code has it. \<open>RecommenderAgent.build_final_package_list\<close> takes no
  \<open>user_packages\<close> and has no fallback. The two functions return the same list
  whenever that list is not empty or \<open>user_packages\<close> is empty; when the
  RecommenderAgent's list is empty and \<open>user_packages\<close> is not, \<open>main\<close>'s
  function returns \<open>user_packages\<close> without its repetitions instead, and the two
  differ.
\<close>

theorem build_final_package_list_main_agreement:
  "(build_final_package_list r ch \<noteq> [] \<or> user_packages = [] \<longrightarrow>
      main_build_final_package_list r ch user_packages = build_final_package_list r ch) \<and>
   (build_final_package_list r ch = [] \<and> user_packages \<noteq> [] \<longrightarrow>
      main_build_final_package_list r ch user_packages =
        remove_duplicates {} [] user_packages \<and>
      main_build_final_package_list r ch user_packages \<noteq> build_final_package_list r ch)"
proof (intro conjI impI)
  assume "build_final_package_list r ch \<noteq> [] \<or> user_packages = []"
  then show "main_build_final_package_list r ch user_packages = build_final_package_list r ch"
    by (auto simp add: main_build_final_package_list_unfold build_final_package_list_Nil_iff)
next
  assume a: "build_final_package_list r ch = [] \<and> user_packages \<noteq> []"
  then show m: "main_build_final_package_list r ch user_packages =
      remove_duplicates {} [] user_packages"
    by (simp add: main_build_final_package_list_unfold build_final_package_list_Nil_iff)
  from a have "remove_duplicates {} [] user_packages \<noteq> []"
    by (simp add: remove_duplicates_Nil_iff)
  with a m show "main_build_final_package_list r ch user_packages \<noteq>
      build_final_package_list r ch"
    by simp
qed

theorem build_final_package_list_main_agreement_witness:
  "build_final_package_list rec_polars_approved Map.empty \<noteq> []
   \<and> main_build_final_package_list rec_polars_approved Map.empty [''numpy'', ''pandas'']
       = build_final_package_list rec_polars_approved Map.empty"
  using build_final_package_list_main_agreement
          [of rec_polars_approved Map.empty "[''numpy'', ''pandas'']"]
  by (simp add: build_final_package_list_def inserted_packages_def choices_get_def Let_def
        rec_polars_approved_def)

text \<open>
  The claim as stated fails on a recommendation that approves nothing and whose
  only suggestion the user rejects.
\<close>

theorem build_final_package_list_main_differs:
  "build_final_package_list rec_only_additional [''seaborn'' \<mapsto> False] = []
   \<and> main_build_final_package_list rec_only_additional [''seaborn'' \<mapsto> False] [''numpy'']
       = [''numpy'']"
  by (simp add: build_final_package_list_def main_build_final_package_list_def
        inserted_packages_def choices_get_def Let_def rec_only_additional_def)

section \<open>Properties of the popularity miner\<close>

lemma sorted_desc_sort_key:
  "sorted_wrt (\<lambda>x y. snd y \<le> snd x) (sort_key (\<lambda>x. - snd x) (xs :: (string \<times> int) list))"
proof -
  have "sorted (map (\<lambda>x. - snd x) (sort_key (\<lambda>x. - snd x) xs))"
    by (rule sorted_sort_key)
  then show ?thesis
    by (simp add: sorted_wrt_map)
qed

lemma sorted_wrt_slice_to:
  "sorted_wrt P xs \<Longrightarrow> sorted_wrt P (slice_to n xs)"
  by (simp add: slice_to_def sorted_wrt_take)

lemma sorted_get_popular_packages_from_repos:
  "sorted_wrt (\<lambda>x y. snd y \<le> snd x) (get_popular_packages_from_repos env repos top_n)"
  by (simp add: get_popular_packages_from_repos_def sorted_wrt_slice_to sorted_desc_sort_key)

subsection \<open>Claim C6\<close>

text \<open>
  C6. In the ranking that \<open>research_similar_projects\<close> returns under \<open>packages\<close>
  (the output of \<open>get_popular_packages_from_repos\<close> after the filter against
  \<open>common_base\<close>) the occurrence counts never increase along the list, and no
  entry's name is, once lower-cased, one of \<open>pip\<close>, \<open>setuptools\<close>, \<open>wheel\<close>,
  \<open>python\<close>.
\<close>

theorem research_similar_projects_ranking:
  "sorted_wrt (\<lambda>c c'. c' \<le> c) (map snd (packages (research_similar_projects env d n))) \<and>
   (\<forall>pkg \<in> set (packages (research_similar_projects env d n)).
      lower (fst pkg) \<notin> {''pip'', ''setuptools'', ''wheel'', ''python''})"
proof
  show "sorted_wrt (\<lambda>c c'. c' \<le> c) (map snd (packages (research_similar_projects env d n)))"
    by (simp add: research_similar_projects_def Let_def sorted_wrt_map sorted_wrt_filter
        sorted_get_popular_packages_from_repos)
  show "\<forall>pkg \<in> set (packages (research_similar_projects env d n)).
      lower (fst pkg) \<notin> {''pip'', ''setuptools'', ''wheel'', ''python''}"
    by (simp add: research_similar_projects_def Let_def common_base_def)
qed

theorem research_similar_projects_ranking_witness:
  "packages (research_similar_projects two_repos_env ''web app'' 5) =
     [(''requests'', 2), (''flask'', 1), (''django'', 1)]
   \<and> sorted_wrt (\<lambda>c c'. c' \<le> c)
       (map snd (packages (research_similar_projects two_repos_env ''web app'' 5)))
   \<and> lower ''Pip'' = ''pip''"
proof -
  have ranking: "packages (research_similar_projects two_repos_env ''web app'' 5) =
      [(''requests'', 2), (''flask'', 1), (''django'', 1)]"
    by code_simp
  have lowered: "lower ''Pip'' = ''pip''"
    by code_simp
  from research_similar_projects_ranking [of two_repos_env "''web app''" 5]
  have "sorted_wrt (\<lambda>c c'. c' \<le> c)
      (map snd (packages (research_similar_projects two_repos_env ''web app'' 5)))"
    by (rule conjunct1)
  with ranking lowered show ?thesis
    by simp
qed

section \<open>Properties of the aggregator\<close>

subsection \<open>Claim C7\<close>

text \<open>
  C7. If the call to the language model raises, with \<open>e\<close> the text of the
  exception, \<open>generate_recommendations\<close> does not raise: it returns the
  dictionary whose \<open>approved_packages\<close> is \<open>user_packages\<close>, whose
  \<open>alternatives\<close> and \<open>additional\<close> are empty, whose \<open>error\<close> holds the failure
  message, and whose \<open>success\<close> is true.
\<close>

theorem generate_recommendations_llm_failure:
  assumes failed: "llm_invoke env (sent_prompt env user_packages project_description) = Inl e"
  shows "generate_recommendations env user_packages project_description =
     Some \<lparr>success = True, has_suggestions = False,
           final_packages_entry = Some user_packages,
           approved_packages = user_packages,
           alternatives = [], additional = [],
           error = Some (''LLM analysis failed: '' @ e), message = None,
           github_insights = None\<rparr>"
proof -
  from failed have "llm_analysis_of env user_packages project_description =
      Inl (''LLM analysis failed: '' @ e)"
    by (simp add: llm_analysis_of_def analyze_with_llm_def sent_prompt_def)
  then show ?thesis
    by (simp add: generate_recommendations_def)
qed

theorem generate_recommendations_llm_failure_witness:
  "generate_recommendations two_repos_env [''numpy'', ''pandas''] (Some ''web app'') =
     Some \<lparr>success = True, has_suggestions = False,
           final_packages_entry = Some [''numpy'', ''pandas''],
           approved_packages = [''numpy'', ''pandas''],
           alternatives = [], additional = [],
           error = Some ''LLM analysis failed: connection refused'', message = None,
           github_insights = None\<rparr>"
  using generate_recommendations_llm_failure
          [of two_repos_env "[''numpy'', ''pandas'']" "Some ''web app''" "''connection refused''"]
  by (simp add: two_repos_env_def)

section \<open>Properties of the parser\<close>

subsection \<open>Splitting and indexing\<close>





lemma getitem_Some: "i < length xs \<Longrightarrow> getitem xs i = Some (xs ! i)"
  by (simp add: getitem_def)




subsection \<open>The parser never raises and keeps its invariant\<close>





lemma map_of_dict_set: "map_of (dict_set k v d) = (map_of d)(k \<mapsto> v)"
  by (induction d) auto







text \<open>
  A line that, once stripped, starts neither with \<open>APPROVE:\<close> nor with a dash
  changes at most the current section.
\<close>

lemma parse_line_unstructured:
  assumes "\<not> startswith (strip line) ''APPROVE:''" "\<not> startswith (strip line) ''-''"
  shows "\<exists>sec. parse_line st line = Some (st\<lparr>current_section := sec\<rparr>)"
proof (cases "startswith (strip line) ''SUGGEST_ALTERNATIVES:''")
  case True
  with assms show ?thesis by (auto simp: parse_line_def Let_def)
next
  case False
  show ?thesis
  proof (cases "startswith (strip line) ''ADDITIONAL:''")
    case True
    with assms False show ?thesis by (auto simp: parse_line_def Let_def)
  next
    case no_add: False
    with assms False have "parse_line st line = Some (st\<lparr>current_section := current_section st\<rparr>)"
      by (simp add: parse_line_def Let_def)
    then show ?thesis by blast
  qed
qed

lemma parse_lines_unstructured:
  assumes "\<forall>line \<in> set lines. \<not> startswith (strip line) ''APPROVE:'' \<and> \<not> startswith (strip line) ''-''"
  shows "\<exists>sec. parse_lines st lines = Some (st\<lparr>current_section := sec\<rparr>)"
  using assms
proof (induction lines arbitrary: st)
  case Nil
  have "parse_lines st [] = Some (st\<lparr>current_section := current_section st\<rparr>)" by simp
  then show ?case by blast
next
  case (Cons line lines)
  from Cons.prems parse_line_unstructured [of line st] obtain sec where
    sec: "parse_line st line = Some (st\<lparr>current_section := sec\<rparr>)"
    by auto
  from Cons.prems Cons.IH [of "st\<lparr>current_section := sec\<rparr>"] obtain sec' where
    "parse_lines (st\<lparr>current_section := sec\<rparr>) lines =
       Some (st\<lparr>current_section := sec, current_section := sec'\<rparr>)"
    by auto
  with sec have "parse_lines st (line # lines) = Some (st\<lparr>current_section := sec'\<rparr>)"
    by simp
  then show ?case by blast
qed

subsection \<open>Claim C4\<close>

text \<open>
  C4. \<open>parse_llm_recommendations\<close> never raises. When the loop over the lines
  ends with \<open>approved\<close>, \<open>alternatives\<close> and \<open>additional\<close> all empty, it returns
  \<open>user_packages\<close> as the approved packages, with no alternative and no
  additional package. That is the case in particular when no line, once
  stripped, starts with \<open>APPROVE:\<close> or with a dash, and for the empty response
  with \<open>user_packages = ["numpy", "pandas"]\<close>.
\<close>

theorem parse_llm_recommendations_fallback:
  "(parse_lines initial_state (str_split [CHR 0x0A] raw_text) = Some st \<and>
      approved st = [] \<and> cur_alternatives st = [] \<and> cur_additional st = [] \<longrightarrow>
      parse_llm_recommendations raw_text user_packages =
        Some \<lparr>parsed_approved_packages = user_packages,
              alternative_suggestions = [], additional_packages = []\<rparr>) \<and>
   ((\<forall>line \<in> set (str_split [CHR 0x0A] raw_text).
        \<not> startswith (strip line) ''APPROVE:'' \<and> \<not> startswith (strip line) ''-'') \<longrightarrow>
      parse_llm_recommendations raw_text user_packages =
        Some \<lparr>parsed_approved_packages = user_packages,
              alternative_suggestions = [], additional_packages = []\<rparr>) \<and>
   parse_llm_recommendations [] [''numpy'', ''pandas''] =
     Some \<lparr>parsed_approved_packages = [''numpy'', ''pandas''],
           alternative_suggestions = [], additional_packages = []\<rparr>"
proof (intro conjI impI)
  assume "parse_lines initial_state (str_split [CHR 0x0A] raw_text) = Some st \<and>
      approved st = [] \<and> cur_alternatives st = [] \<and> cur_additional st = []"
  then show "parse_llm_recommendations raw_text user_packages =
        Some \<lparr>parsed_approved_packages = user_packages,
              alternative_suggestions = [], additional_packages = []\<rparr>"
    by (simp add: parse_llm_recommendations_def)
next
  assume "\<forall>line \<in> set (str_split [CHR 0x0A] raw_text).
        \<not> startswith (strip line) ''APPROVE:'' \<and> \<not> startswith (strip line) ''-''"
  from parse_lines_unstructured [OF this, of initial_state] obtain sec where
    "parse_lines initial_state (str_split [CHR 0x0A] raw_text) =
       Some (initial_state\<lparr>current_section := sec\<rparr>)"
    by blast
  then show "parse_llm_recommendations raw_text user_packages =
        Some \<lparr>parsed_approved_packages = user_packages,
              alternative_suggestions = [], additional_packages = []\<rparr>"
    by (simp add: parse_llm_recommendations_def initial_state_def)
next
  show "parse_llm_recommendations [] [''numpy'', ''pandas''] =
     Some \<lparr>parsed_approved_packages = [''numpy'', ''pandas''],
           alternative_suggestions = [], additional_packages = []\<rparr>"
    by code_simp
qed

theorem parse_llm_recommendations_fallback_witness:
  "str_split [CHR 0x0A] ''I cannot help with that.'' = [''I cannot help with that.'']
   \<and> parse_llm_recommendations ''I cannot help with that.'' [''numpy'', ''pandas''] =
       Some \<lparr>parsed_approved_packages = [''numpy'', ''pandas''],
             alternative_suggestions = [], additional_packages = []\<rparr>"
proof -
  have lines: "str_split [CHR 0x0A] ''I cannot help with that.'' = [''I cannot help with that.'']"
    by code_simp
  have "strip ''I cannot help with that.'' = ''I cannot help with that.''"
    by code_simp
  then have "\<forall>line \<in> set (str_split [CHR 0x0A] ''I cannot help with that.'').
      \<not> startswith (strip line) ''APPROVE:'' \<and> \<not> startswith (strip line) ''-''"
    by (simp add: lines startswith_def)
  with parse_llm_recommendations_fallback
         [of "''I cannot help with that.''" _ "[''numpy'', ''pandas'']"]
  have "parse_llm_recommendations ''I cannot help with that.'' [''numpy'', ''pandas''] =
       Some \<lparr>parsed_approved_packages = [''numpy'', ''pandas''],
             alternative_suggestions = [], additional_packages = []\<rparr>"
    by blast
  with lines show ?thesis by simp
qed

subsection \<open>Claim C5\<close>




end
